theory Spec2Isabelle
  imports Complex_Main "HOL-Library.Word" "HOL-Library.AList"
begin

unbundle bit_operations_syntax

section \<open>Modbus client: address convention and float byte orders\<close>

text \<open>
  \<^verbatim>\<open>ModbusService._parse_address\<close> (services/modbus_service.py) maps one integer to a
  register kind and the offset that is put on the wire. The kinds are the four strings
  the source returns.
\<close>

datatype register_type = holding | input | discrete | coil

definition parse_address :: "int \<Rightarrow> register_type \<times> int" where
  "parse_address address =
     (if 40001 \<le> address \<and> address \<le> 49999 then (holding, address - 40001)
      else if 30001 \<le> address \<and> address \<le> 39999 then (input, address - 30001)
      else if 10001 \<le> address \<and> address \<le> 19999 then (discrete, address - 10001)
      else if 0 \<le> address \<and> address \<le> 9999 then (coil, address)
      else (holding, address))"

text \<open>
  \<^verbatim>\<open>ModbusService._registers_to_float\<close>. A register is a 16-bit value; \<^verbatim>\<open>struct.pack\<close>
  with format \<^verbatim>\<open>>HH\<close> writes each register high byte first, with \<^verbatim>\<open><HH\<close> low byte
  first. \<open>bytes_data\<close> is the local variable of that name: the four bytes that are
  handed to \<^verbatim>\<open>struct.unpack('>f', ...)\<close>. Fewer than two registers raise ValueError.
\<close>

datatype py_error = ValueError string | TypeError string | IndexError | KeyError string | RaisedError string

definition pack_be_H :: "16 word \<Rightarrow> 8 word list" where
  "pack_be_H r = [ucast (drop_bit 8 r), ucast (r AND 0xFF)]"

definition pack_le_H :: "16 word \<Rightarrow> 8 word list" where
  "pack_le_H r = [ucast (r AND 0xFF), ucast (drop_bit 8 r)]"

definition bytes_data :: "16 word list \<Rightarrow> string \<Rightarrow> py_error + 8 word list" where
  "bytes_data registers byte_order =
     (case registers of
        reg1 # reg2 # _ \<Rightarrow>
          Inr (if byte_order = ''ABCD'' then pack_be_H reg1 @ pack_be_H reg2
               else if byte_order = ''DCBA'' then pack_le_H reg2 @ pack_le_H reg1
               else if byte_order = ''BADC'' then pack_be_H reg2 @ pack_be_H reg1
               else if byte_order = ''CDAB'' then pack_le_H reg1 @ pack_le_H reg2
               else pack_be_H reg1 @ pack_be_H reg2)
      | _ \<Rightarrow> Inl (ValueError ''Need at least 2 registers for float conversion''))"

text \<open>
  The big-endian decoder reads the four bytes as one 32-bit pattern, first byte most
  significant. The pattern is the IEEE-754 encoding of the float the source returns;
  its reading as a floating-point number is outside this development.
\<close>

definition unpack_be_f :: "8 word list \<Rightarrow> 32 word" where
  "unpack_be_f bs = foldl (\<lambda>acc b. push_bit 8 acc OR ucast b) 0 bs"

definition registers_to_float :: "16 word list \<Rightarrow> string \<Rightarrow> py_error + 32 word" where
  "registers_to_float registers byte_order =
     (case bytes_data registers byte_order of
        Inl e \<Rightarrow> Inl e
      | Inr bs \<Rightarrow> Inr (unpack_be_f bs))"

section \<open>Catalog: mapping health of a device table\<close>

text \<open>
  \<^verbatim>\<open>FieldMappingViewSet._update_mapping_health\<close> (views/mappings.py) and the
  \<^verbatim>\<open>mapping_health\<close> action of \<^verbatim>\<open>DeviceTableViewSet\<close> (views/tables.py). A table is
  seen through the two key lists the source queries and the stored health label.
\<close>

datatype MappingHealth = UNMAPPED | PARTIAL | MAPPED

record DeviceTable =
  schema_keys :: "string list"
  mapping_field_keys :: "string list"
  mapping_health :: MappingHealth

definition update_mapping_health :: "DeviceTable \<Rightarrow> DeviceTable" where
  "update_mapping_health table =
     (let schema_fields = set (schema_keys table);
          mapped_fields = set (mapping_field_keys table);
          health = (if schema_fields = {} then UNMAPPED
                    else if schema_fields \<subseteq> mapped_fields then MAPPED
                    else if mapped_fields \<noteq> {} then PARTIAL
                    else UNMAPPED)
      in if mapping_health table \<noteq> health then table\<lparr>mapping_health := health\<rparr> else table)"

text \<open>
  The read endpoint repeats the computation, returns the label and stores it when it
  changed.
\<close>

definition mapping_health_action :: "DeviceTable \<Rightarrow> MappingHealth \<times> DeviceTable" where
  "mapping_health_action table =
     (let schema_fields = set (schema_keys table);
          mapped_fields = set (mapping_field_keys table);
          health = (if schema_fields = {} then UNMAPPED
                    else if mapped_fields \<supseteq> schema_fields then MAPPED
                    else if mapped_fields \<noteq> {} then PARTIAL
                    else UNMAPPED)
      in (health,
          if mapping_health table \<noteq> health then table\<lparr>mapping_health := health\<rparr> else table))"

section \<open>Metrics registry\<close>

text \<open>
  \<^verbatim>\<open>JobMetrics\<close> (services/job_executor.py). Counters are Python integers. A
  \<^verbatim>\<open>datetime\<close> is its number of microseconds on the UTC time line, and every call
  of \<^verbatim>\<open>datetime.utcnow()\<close> is an argument \<open>now\<close>. Latencies are Python floats, read
  here as real numbers: sums, quotients and comparisons are exact.
\<close>

type_synonym utc_time = int

record JobMetrics =
  job_id :: string
  reads :: int
  read_errors :: int
  writes :: int
  write_errors :: int
  rows_written :: int
  triggers_evaluated :: int
  triggers_fired :: int
  triggers_suppressed :: int
  read_latencies :: "real list"
  write_latencies :: "real list"
  started_at :: "utc_time option"
  last_read_at :: "utc_time option"
  last_write_at :: "utc_time option"
  errors :: "(string \<times> string \<times> utc_time) list"

text \<open>\<^verbatim>\<open>deque(maxlen=1000).append\<close>: a full window drops its oldest sample.\<close>

definition deque_append :: "'a list \<Rightarrow> 'a \<Rightarrow> 'a list" where
  "deque_append d x = (if length d < 1000 then d @ [x] else tl d @ [x])"

definition record_read :: "real \<Rightarrow> bool \<Rightarrow> utc_time \<Rightarrow> JobMetrics \<Rightarrow> JobMetrics" where
  "record_read latency_ms success now m =
     (let m1 = m\<lparr>reads := reads m + 1\<rparr>
      in if success
         then m1\<lparr>read_latencies := deque_append (read_latencies m1) latency_ms,
                 last_read_at := Some now\<rparr>
         else m1\<lparr>read_errors := read_errors m1 + 1\<rparr>)"

definition record_write :: "real \<Rightarrow> int \<Rightarrow> bool \<Rightarrow> utc_time \<Rightarrow> JobMetrics \<Rightarrow> JobMetrics" where
  "record_write latency_ms rows success now m =
     (let m1 = m\<lparr>writes := writes m + 1\<rparr>
      in if success
         then m1\<lparr>write_latencies := deque_append (write_latencies m1) latency_ms,
                 rows_written := rows_written m1 + rows,
                 last_write_at := Some now\<rparr>
         else m1\<lparr>write_errors := write_errors m1 + 1\<rparr>)"

definition record_trigger :: "bool \<Rightarrow> bool \<Rightarrow> JobMetrics \<Rightarrow> JobMetrics" where
  "record_trigger fired suppressed m =
     (let m1 = m\<lparr>triggers_evaluated := triggers_evaluated m + 1\<rparr>;
          m2 = (if fired then m1\<lparr>triggers_fired := triggers_fired m1 + 1\<rparr> else m1)
      in if suppressed then m2\<lparr>triggers_suppressed := triggers_suppressed m2 + 1\<rparr> else m2)"

definition record_error :: "string \<Rightarrow> string \<Rightarrow> utc_time \<Rightarrow> JobMetrics \<Rightarrow> JobMetrics" where
  "record_error code message now m =
     (let es = errors m @ [(code, message, now)]
      in m\<lparr>errors := (if length es > 100 then drop (length es - 100) es else es)\<rparr>)"

definition reset :: "utc_time \<Rightarrow> JobMetrics \<Rightarrow> JobMetrics" where
  "reset now m =
     m\<lparr>reads := 0, read_errors := 0, writes := 0, write_errors := 0, rows_written := 0,
       triggers_evaluated := 0, triggers_fired := 0, triggers_suppressed := 0,
       read_latencies := [], write_latencies := [], started_at := Some now,
       last_read_at := None, last_write_at := None, errors := []\<rparr>"

text \<open>
  The two expressions of \<^verbatim>\<open>get_summary\<close> that work on a latency window. \<^verbatim>\<open>int(x)\<close>
  truncates towards zero; a list index out of range raises IndexError.
\<close>

definition py_int :: "real \<Rightarrow> int" where
  "py_int x = (if 0 \<le> x then \<lfloor>x\<rfloor> else \<lceil>x\<rceil>)"

definition py_getitem :: "'a list \<Rightarrow> int \<Rightarrow> py_error + 'a" where
  "py_getitem xs i =
     (if 0 \<le> i \<and> i < int (length xs) then Inr (xs ! nat i)
      else if i < 0 \<and> - int (length xs) \<le> i then Inr (xs ! nat (int (length xs) + i))
      else Inl IndexError)"

definition avg_latency :: "real list \<Rightarrow> real option" where
  "avg_latency lats = (if lats \<noteq> [] then Some (sum_list lats / real (length lats)) else None)"

definition p95_latency :: "real list \<Rightarrow> py_error + real option" where
  "p95_latency lats =
     (if length lats > 20
      then (case py_getitem (sort lats) (py_int (real (length lats) * 0.95)) of
              Inl e \<Rightarrow> Inl e
            | Inr v \<Rightarrow> Inr (Some v))
      else Inr None)"

record summary =
  s_job_id :: string
  s_reads :: int
  s_read_errors :: int
  s_writes :: int
  s_write_errors :: int
  s_rows_written :: int
  s_triggers_evaluated :: int
  s_triggers_fired :: int
  s_triggers_suppressed :: int
  avg_read_latency_ms :: "real option"
  avg_write_latency_ms :: "real option"
  p95_read_latency_ms :: "real option"
  p95_write_latency_ms :: "real option"
  s_started_at :: "utc_time option"
  s_last_read_at :: "utc_time option"
  s_last_write_at :: "utc_time option"
  recent_errors :: "(string \<times> string \<times> utc_time) list"

definition get_summary :: "JobMetrics \<Rightarrow> py_error + summary" where
  "get_summary m =
     (let read_lats = read_latencies m; write_lats = write_latencies m
      in case p95_latency read_lats of
           Inl e \<Rightarrow> Inl e
         | Inr p95_read \<Rightarrow>
             (case p95_latency write_lats of
                Inl e \<Rightarrow> Inl e
              | Inr p95_write \<Rightarrow>
                  Inr \<lparr>s_job_id = job_id m, s_reads = reads m, s_read_errors = read_errors m,
                       s_writes = writes m, s_write_errors = write_errors m,
                       s_rows_written = rows_written m,
                       s_triggers_evaluated = triggers_evaluated m,
                       s_triggers_fired = triggers_fired m,
                       s_triggers_suppressed = triggers_suppressed m,
                       avg_read_latency_ms = avg_latency read_lats,
                       avg_write_latency_ms = avg_latency write_lats,
                       p95_read_latency_ms = p95_read,
                       p95_write_latency_ms = p95_write,
                       s_started_at = started_at m, s_last_read_at = last_read_at m,
                       s_last_write_at = last_write_at m,
                       recent_errors = drop (length (errors m) - 10) (errors m)\<rparr>))"

section \<open>Trigger evaluator\<close>

text \<open>
  Values read from a device are Python objects: \<^verbatim>\<open>None\<close> (a failed read), a bool, an
  int, a float (a real number here) or a string; a row also carries a datetime. A
  dictionary is an association list in insertion order without repeated keys.
\<close>

datatype pyval = VNone | VBool bool | VInt int | VFloat real | VStr string | VTime utc_time

type_synonym pydict = "(string \<times> pyval) list"

definition dict_get :: "pydict \<Rightarrow> string \<Rightarrow> pyval" where
  "dict_get d k = (case map_of d k of None \<Rightarrow> VNone | Some v \<Rightarrow> v)"

definition dict_set :: "pydict \<Rightarrow> string \<Rightarrow> pyval \<Rightarrow> pydict" where
  "dict_set d k v = AList.update k v d"

text \<open>
  \<^verbatim>\<open>isinstance(x, (int, float))\<close> holds for ints, floats and also for bools, since
  \<^verbatim>\<open>bool\<close> is a subclass of \<^verbatim>\<open>int\<close> with \<^verbatim>\<open>True == 1\<close> and \<^verbatim>\<open>False == 0\<close>.
  \<open>num_of\<close> gives the numeric value of such an object and \<open>None\<close> for any other.
\<close>

fun num_of :: "pyval \<Rightarrow> real option" where
  "num_of (VBool b) = Some (if b then 1 else 0)"
| "num_of (VInt i) = Some (real_of_int i)"
| "num_of (VFloat r) = Some r"
| "num_of VNone = None"
| "num_of (VStr s) = None"
| "num_of (VTime t) = None"

fun int_of :: "pyval \<Rightarrow> int option" where
  "int_of (VBool b) = Some (if b then 1 else 0)"
| "int_of (VInt i) = Some i"
| "int_of v = None"

fun truthy :: "pyval \<Rightarrow> bool" where
  "truthy VNone = False"
| "truthy (VBool b) = b"
| "truthy (VInt i) = (i \<noteq> 0)"
| "truthy (VFloat r) = (r \<noteq> 0)"
| "truthy (VStr s) = (s \<noteq> [])"
| "truthy (VTime t) = True"

text \<open>\<^verbatim>\<open>a == b\<close>: numbers compare by value, other objects by type and content.\<close>

definition py_eq :: "pyval \<Rightarrow> pyval \<Rightarrow> bool" where
  "py_eq a b =
     (case (num_of a, num_of b) of
        (Some x, Some y) \<Rightarrow> x = y
      | (None, None) \<Rightarrow> a = b
      | _ \<Rightarrow> False)"

text \<open>\<^verbatim>\<open>abs(a - b)\<close>: defined between numbers, a TypeError otherwise.\<close>

definition py_abs_sub :: "pyval \<Rightarrow> pyval \<Rightarrow> py_error + pyval" where
  "py_abs_sub a b =
     (case (num_of a, num_of b) of
        (Some x, Some y) \<Rightarrow>
          Inr (case (int_of a, int_of b) of
                 (Some i, Some j) \<Rightarrow> VInt \<bar>i - j\<bar>
               | _ \<Rightarrow> VFloat \<bar>x - y\<bar>)
      | _ \<Rightarrow> Inl (TypeError ''unsupported operand type(s) for -''))"

text \<open>
  An ordering comparison of a value with the float threshold: a TypeError when the
  value is not a number.
\<close>

definition cmp_threshold :: "(real \<Rightarrow> real \<Rightarrow> bool) \<Rightarrow> pyval \<Rightarrow> real \<Rightarrow> py_error + bool" where
  "cmp_threshold rel a t =
     (case num_of a of
        Some x \<Rightarrow> Inr (rel x t)
      | None \<Rightarrow> Inl (TypeError ''comparison not supported between instances''))"

text \<open>
  A trigger as \<^verbatim>\<open>_build_job_config\<close> (views/jobs.py) hands it over: all five keys
  are present, \<^verbatim>\<open>value\<close> may be null.
\<close>

record trigger =
  trig_field :: string
  trig_operator :: string
  trig_value :: "real option"
  trig_deadband :: real
  trig_cooldown_ms :: int

text \<open>The branch \<^verbatim>\<open>operator == 'change'\<close> of \<^verbatim>\<open>_evaluate_triggers\<close>.\<close>

definition change_fired :: "pyval \<Rightarrow> pyval \<Rightarrow> real \<Rightarrow> py_error + bool" where
  "change_fired new_val old_val deadband =
     (if old_val \<noteq> VNone
      then (case (if num_of new_val \<noteq> None then py_abs_sub new_val old_val
                  else Inr (VBool (\<not> py_eq new_val old_val))) of
              Inl e \<Rightarrow> Inl e
            | Inr diff \<Rightarrow>
                Inr (case num_of diff of
                       Some d \<Rightarrow> d > deadband
                     | None \<Rightarrow> truthy diff))
      else Inr False)"

text \<open>The whole operator chain: the value of \<^verbatim>\<open>fired\<close> before the cooldown check.\<close>

definition trigger_condition :: "trigger \<Rightarrow> pyval \<Rightarrow> pyval \<Rightarrow> py_error + bool" where
  "trigger_condition tr new_val old_val =
     (let operator = trig_operator tr; threshold = trig_value tr; deadband = trig_deadband tr
      in if operator = ''change'' then change_fired new_val old_val deadband
         else if operator = ''rising'' then
           (case threshold of
              None \<Rightarrow> Inr False
            | Some t \<Rightarrow>
                if old_val \<noteq> VNone
                then (case cmp_threshold (\<le>) old_val t of
                        Inl e \<Rightarrow> Inl e
                      | Inr at_or_below \<Rightarrow> if at_or_below then cmp_threshold (>) new_val t else Inr False)
                else Inr False)
         else if operator = ''falling'' then
           (case threshold of
              None \<Rightarrow> Inr False
            | Some t \<Rightarrow>
                if old_val \<noteq> VNone
                then (case cmp_threshold (\<ge>) old_val t of
                        Inl e \<Rightarrow> Inl e
                      | Inr at_or_above \<Rightarrow> if at_or_above then cmp_threshold (<) new_val t else Inr False)
                else Inr False)
         else if operator = ''>'' then
           (case threshold of None \<Rightarrow> Inr False | Some t \<Rightarrow> cmp_threshold (>) new_val t)
         else if operator = ''>='' then
           (case threshold of None \<Rightarrow> Inr False | Some t \<Rightarrow> cmp_threshold (\<ge>) new_val t)
         else if operator = ''<'' then
           (case threshold of None \<Rightarrow> Inr False | Some t \<Rightarrow> cmp_threshold (<) new_val t)
         else if operator = ''<='' then
           (case threshold of None \<Rightarrow> Inr False | Some t \<Rightarrow> cmp_threshold (\<le>) new_val t)
         else if operator = ''=='' then
           (case threshold of None \<Rightarrow> Inr False | Some t \<Rightarrow> Inr (py_eq new_val (VFloat t)))
         else if operator = ''!='' then
           (case threshold of None \<Rightarrow> Inr False | Some t \<Rightarrow> Inr (\<not> py_eq new_val (VFloat t)))
         else Inr False)"

text \<open>
  The cooldown check and the bookkeeping that ends the body of the trigger loop. The
  state is the cooldown dictionary of the job (key \<^verbatim>\<open>table_id:field\<close>, value the time
  of the last fire), the metrics object and the flag \<^verbatim>\<open>any_fired\<close>. A stored
  datetime is always truthy, so \<^verbatim>\<open>if last_fire\<close> asks whether the key is present.
\<close>

definition total_seconds :: "int \<Rightarrow> real" where
  "total_seconds delta = real_of_int delta / 1000000"

type_synonym trigger_state = "(string \<rightharpoonup> utc_time) \<times> JobMetrics \<times> bool"

definition cooldown_key :: "string \<Rightarrow> string \<Rightarrow> string" where
  "cooldown_key table_id fld = table_id @ '':'' @ fld"

definition check_cooldown ::
  "string \<Rightarrow> string \<Rightarrow> int \<Rightarrow> utc_time \<Rightarrow> bool \<Rightarrow> trigger_state \<Rightarrow> trigger_state" where
  "check_cooldown table_id fld cooldown_ms now fired0 s =
     (case s of (cooldowns, metrics, any_fired) \<Rightarrow>
        let key = cooldown_key table_id fld;
            suppressed =
              (fired0 \<and> cooldown_ms > 0 \<and>
               (case cooldowns key of
                  None \<Rightarrow> False
                | Some last_fire \<Rightarrow>
                    total_seconds (now - last_fire) * 1000 < real_of_int cooldown_ms));
            metrics1 = (if suppressed then record_trigger True True metrics else metrics);
            fired = (if suppressed then False else fired0)
        in if fired
           then (cooldowns(key \<mapsto> now), record_trigger True False metrics1, True)
           else (cooldowns, record_trigger False False metrics1, any_fired))"

text \<open>
  The loop over the configured triggers. A trigger whose field is not among the
  values is skipped; a TypeError of a comparison leaves the loop, and the changes made
  so far to the cooldown dictionary and to the metrics stay.
\<close>

fun trigger_loop ::
  "string \<Rightarrow> pydict \<Rightarrow> pydict \<Rightarrow> utc_time \<Rightarrow> trigger list \<Rightarrow> trigger_state
     \<Rightarrow> py_error option \<times> trigger_state" where
  "trigger_loop table_id vals last_values now [] s = (None, s)"
| "trigger_loop table_id vals last_values now (tr # trs) s =
     (case map_of vals (trig_field tr) of
        None \<Rightarrow> trigger_loop table_id vals last_values now trs s
      | Some new_val \<Rightarrow>
          (case trigger_condition tr new_val (dict_get last_values (trig_field tr)) of
             Inl e \<Rightarrow> (Some e, s)
           | Inr fired \<Rightarrow>
               trigger_loop table_id vals last_values now trs
                 (check_cooldown table_id (trig_field tr) (trig_cooldown_ms tr) now fired s)))"

text \<open>
  The executor keeps, per job, the last values of each table and the cooldown
  dictionary. \<^verbatim>\<open>_evaluate_triggers\<close> reads both with \<^verbatim>\<open>.get(job_id, {})\<close>: for a job
  without a cooldown dictionary the loop works on a fresh one that is then dropped.
\<close>

record JobExecutor =
  job_last_values :: "string \<rightharpoonup> (string \<rightharpoonup> pydict)"
  job_cooldowns :: "string \<rightharpoonup> (string \<rightharpoonup> utc_time)"

definition stored_last_values :: "JobExecutor \<Rightarrow> string \<Rightarrow> string \<Rightarrow> pydict" where
  "stored_last_values self job table_id =
     (case job_last_values self job of
        None \<Rightarrow> []
      | Some per_table \<Rightarrow> (case per_table table_id of None \<Rightarrow> [] | Some d \<Rightarrow> d))"

definition evaluate_triggers ::
  "string \<Rightarrow> string \<Rightarrow> pydict \<Rightarrow> trigger list \<Rightarrow> utc_time \<Rightarrow> JobExecutor \<Rightarrow> JobMetrics
     \<Rightarrow> (py_error + bool) \<times> JobExecutor \<times> JobMetrics" where
  "evaluate_triggers job table_id vals triggers now self metrics =
     (let last_values = stored_last_values self job table_id;
          cooldowns = (case job_cooldowns self job of None \<Rightarrow> Map.empty | Some c \<Rightarrow> c)
      in case trigger_loop table_id vals last_values now triggers (cooldowns, metrics, False) of
           (err, cooldowns', metrics', any_fired) \<Rightarrow>
             let self1 = (case job_cooldowns self job of
                            None \<Rightarrow> self
                          | Some c \<Rightarrow> self\<lparr>job_cooldowns := (job_cooldowns self)(job \<mapsto> cooldowns')\<rparr>)
             in (case err of
                   Some e \<Rightarrow> (Inl e, self1, metrics')
                 | None \<Rightarrow>
                     let per_table = (case job_last_values self1 job of
                                        None \<Rightarrow> Map.empty
                                      | Some pt \<Rightarrow> pt)
                     in (Inr any_fired,
                         self1\<lparr>job_last_values :=
                                 (job_last_values self1)(job \<mapsto> per_table(table_id \<mapsto> vals))\<rparr>,
                         metrics')))"

text \<open>\<^verbatim>\<open>JobMetrics(job_id=job_id)\<close>: the dataclass defaults.\<close>

definition fresh_metrics :: "string \<Rightarrow> JobMetrics" where
  "fresh_metrics job =
     \<lparr>job_id = job, reads = 0, read_errors = 0, writes = 0, write_errors = 0,
      rows_written = 0, triggers_evaluated = 0, triggers_fired = 0, triggers_suppressed = 0,
      read_latencies = [], write_latencies = [], started_at = None, last_read_at = None,
      last_write_at = None, errors = []\<rparr>"

section \<open>Job executor: the worker loop\<close>

text \<open>
  \<^verbatim>\<open>JobExecutor._run_job_loop\<close>. What the surroundings do during one pass of the body
  of \<^verbatim>\<open>for table_id in table_ids\<close> is a \<open>table_event\<close>: the outcome of the read
  callback, the clock readings, and the outcome of the write callback should it be
  called (it raises with a message or returns its success flag).
\<close>

record job_config =
  job_type :: string
  interval_ms :: int
  table_ids :: "string list"
  triggers :: "trigger list"
  batch_size :: int

datatype read_result = ReadRaises string | ReadReturns "pydict option"

record table_event =
  ev_read :: read_result
  ev_read_latency :: real
  ev_read_at :: utc_time
  ev_eval_at :: utc_time
  ev_stamp_at :: utc_time
  ev_write :: "string + bool"
  ev_write_latency :: real
  ev_write_at :: utc_time
  ev_error_at :: utc_time

text \<open>
  The worker's state: the executor's dictionaries, the metrics object of the job, the
  local \<^verbatim>\<open>batch_buffer\<close>, and the calls of the write callback made so far, in order,
  each with its table and the rows passed.
\<close>

record loop_state =
  executor :: JobExecutor
  metrics :: JobMetrics
  batch_buffer :: "(string \<times> pydict list) list"
  write_calls :: "(string \<times> pydict list) list"

fun error_message :: "py_error \<Rightarrow> string" where
  "error_message (ValueError s) = s"
| "error_message (TypeError s) = s"
| "error_message IndexError = ''list index out of range''"
| "error_message (KeyError s) = s"
| "error_message (RaisedError s) = s"

text \<open>The \<^verbatim>\<open>except Exception\<close> branch of the loop body.\<close>

definition loop_error :: "string \<Rightarrow> table_event \<Rightarrow> loop_state \<Rightarrow> loop_state" where
  "loop_error msg ev st =
     st\<lparr>metrics := record_read 0 False (ev_read_at ev)
                      (record_error ''LOOP_ERROR'' msg (ev_error_at ev) (metrics st))\<rparr>"

text \<open>
  The read and the write decision: \<open>None\<close> when the pass ends before the buffer code
  (the read raised, returned \<^verbatim>\<open>None\<close>, or the trigger evaluation raised), otherwise
  \<^verbatim>\<open>should_write\<close> and the values.
\<close>

definition read_and_decide ::
  "job_config \<Rightarrow> string \<Rightarrow> string \<Rightarrow> table_event \<Rightarrow> loop_state
     \<Rightarrow> (bool \<times> pydict) option \<times> loop_state" where
  "read_and_decide cfg job table_id ev st =
     (case ev_read ev of
        ReadRaises msg \<Rightarrow> (None, loop_error msg ev st)
      | ReadReturns r \<Rightarrow>
          let st1 = st\<lparr>metrics := record_read (ev_read_latency ev) True (ev_read_at ev) (metrics st)\<rparr>
          in (case r of
                None \<Rightarrow> (None, st1)
              | Some vals \<Rightarrow>
                  if job_type cfg = ''continuous'' then (Some (True, vals), st1)
                  else (case evaluate_triggers job table_id vals (triggers cfg) (ev_eval_at ev)
                               (executor st1) (metrics st1) of
                          (Inl e, self', m') \<Rightarrow>
                            (None, loop_error (error_message e) ev
                                     (st1\<lparr>executor := self', metrics := m'\<rparr>))
                        | (Inr should_write, self', m') \<Rightarrow>
                            (Some (should_write, vals), st1\<lparr>executor := self', metrics := m'\<rparr>))))"

text \<open>
  The buffer code: stamp the row, append it, and when the buffer has reached
  \<^verbatim>\<open>batch_size\<close> call the write callback, record the write and rebind the buffer to an
  empty list. A callback that raises leaves through the \<^verbatim>\<open>except\<close> branch, before the
  buffer is rebound.
\<close>

definition buffer_row ::
  "job_config \<Rightarrow> string \<Rightarrow> bool \<Rightarrow> pydict \<Rightarrow> table_event \<Rightarrow> loop_state \<Rightarrow> loop_state" where
  "buffer_row cfg table_id should_write vals ev st =
     (if should_write
      then (case map_of (batch_buffer st) table_id of
              None \<Rightarrow> loop_error table_id ev st
            | Some buf \<Rightarrow>
                let row = dict_set vals ''timestamp_utc'' (VTime (ev_stamp_at ev));
                    buf' = buf @ [row];
                    st1 = st\<lparr>batch_buffer := AList.update table_id buf' (batch_buffer st)\<rparr>
                in if int (length buf') \<ge> batch_size cfg
                   then (let st2 = st1\<lparr>write_calls := write_calls st1 @ [(table_id, buf')]\<rparr>
                         in case ev_write ev of
                              Inl msg \<Rightarrow> loop_error msg ev st2
                            | Inr success \<Rightarrow>
                                st2\<lparr>metrics := record_write (ev_write_latency ev) (int (length buf'))
                                                  success (ev_write_at ev) (metrics st2),
                                    batch_buffer := AList.update table_id [] (batch_buffer st2)\<rparr>)
                   else st1)
      else st)"

definition table_pass ::
  "job_config \<Rightarrow> string \<Rightarrow> string \<Rightarrow> table_event \<Rightarrow> loop_state \<Rightarrow> loop_state" where
  "table_pass cfg job table_id ev st =
     (case read_and_decide cfg job table_id ev st of
        (None, st') \<Rightarrow> st'
      | (Some (should_write, vals), st') \<Rightarrow> buffer_row cfg table_id should_write vals ev st')"

text \<open>
  One pass of the \<^verbatim>\<open>while\<close> loop visits the tables in order; \<open>evs k\<close> is the event of
  the \<open>k\<close>-th table. The loop runs until the stop event is seen set: \<open>n\<close> passes, with
  \<open>env i\<close> the events of pass \<open>i\<close>.
\<close>

fun for_tables ::
  "job_config \<Rightarrow> string \<Rightarrow> (nat \<Rightarrow> table_event) \<Rightarrow> nat \<Rightarrow> string list \<Rightarrow> loop_state \<Rightarrow> loop_state" where
  "for_tables cfg job evs k [] st = st"
| "for_tables cfg job evs k (table_id # rest) st =
     for_tables cfg job evs (Suc k) rest (table_pass cfg job table_id (evs k) st)"

primrec iterations ::
  "job_config \<Rightarrow> string \<Rightarrow> (nat \<Rightarrow> nat \<Rightarrow> table_event) \<Rightarrow> nat \<Rightarrow> loop_state \<Rightarrow> loop_state" where
  "iterations cfg job env 0 st = st"
| "iterations cfg job env (Suc n) st =
     for_tables cfg job (env n) 0 (table_ids cfg) (iterations cfg job env n st)"

text \<open>Before the loop: the dictionaries of a trigger job and one empty buffer per table.\<close>

definition loop_start :: "job_config \<Rightarrow> string \<Rightarrow> JobExecutor \<Rightarrow> JobMetrics \<Rightarrow> loop_state" where
  "loop_start cfg job self m =
     \<lparr>executor = (if job_type cfg = ''trigger''
                  then self\<lparr>job_last_values := (job_last_values self)(job \<mapsto> Map.empty),
                            job_cooldowns := (job_cooldowns self)(job \<mapsto> Map.empty)\<rparr>
                  else self),
      metrics = m,
      batch_buffer = foldl (\<lambda>b table_id. AList.update table_id [] b) [] (table_ids cfg),
      write_calls = []\<rparr>"

text \<open>
  After the loop every non-empty buffer is passed to the write callback once; its
  result is not looked at and an exception is only logged.
\<close>

definition flush_remaining :: "loop_state \<Rightarrow> loop_state" where
  "flush_remaining st =
     st\<lparr>write_calls := write_calls st @ filter (\<lambda>entry. snd entry \<noteq> []) (batch_buffer st)\<rparr>"

definition run_job_loop ::
  "job_config \<Rightarrow> string \<Rightarrow> (nat \<Rightarrow> nat \<Rightarrow> table_event) \<Rightarrow> nat \<Rightarrow> JobExecutor \<Rightarrow> JobMetrics
     \<Rightarrow> loop_state" where
  "run_job_loop cfg job env n self m =
     flush_remaining (iterations cfg job env n (loop_start cfg job self m))"

text \<open>
  For a job with a single table: the rows that the first \<open>n\<close> passes appended to the
  buffer, in order. A pass appends a row exactly when it reaches the buffer code with
  \<^verbatim>\<open>should_write\<close> true.
\<close>

definition enqueued_row ::
  "job_config \<Rightarrow> string \<Rightarrow> string \<Rightarrow> table_event \<Rightarrow> loop_state \<Rightarrow> pydict list" where
  "enqueued_row cfg job table_id ev st =
     (case fst (read_and_decide cfg job table_id ev st) of
        None \<Rightarrow> []
      | Some (should_write, vals) \<Rightarrow>
          if should_write then [dict_set vals ''timestamp_utc'' (VTime (ev_stamp_at ev))] else [])"

primrec enqueued ::
  "job_config \<Rightarrow> string \<Rightarrow> string \<Rightarrow> (nat \<Rightarrow> nat \<Rightarrow> table_event) \<Rightarrow> nat \<Rightarrow> loop_state
     \<Rightarrow> pydict list" where
  "enqueued cfg job table_id env 0 st = []"
| "enqueued cfg job table_id env (Suc n) st =
     enqueued cfg job table_id env n st @
     enqueued_row cfg job table_id (env n 0) (iterations cfg job env n st)"

section \<open>Storage writer\<close>

text \<open>
  \<^verbatim>\<open>StorageService\<close> (services/storage_service.py). The pool maps the key
  \<^verbatim>\<open>provider:connection_string\<close> to an engine; \<open>disposed\<close> lists the engines on which
  \<^verbatim>\<open>dispose()\<close> was called. What the database does with a statement is a \<open>db_result\<close>.
\<close>

record Engine =
  engine_url :: string

record StorageService =
  engines :: "string \<rightharpoonup> Engine"
  disposed :: "Engine list"

datatype db_result = DbOk | DbRaises string

definition startswith :: "string \<Rightarrow> string \<Rightarrow> bool" where
  "startswith s pre = (take (length pre) s = pre)"

definition build_connection_url :: "string \<Rightarrow> string \<Rightarrow> py_error + string" where
  "build_connection_url provider connection_string =
     (if provider = ''sqlite'' then Inr (''sqlite:///'' @ connection_string)
      else if provider = ''postgres'' then
        (if startswith connection_string ''postgresql://'' then Inr connection_string
         else Inr (''postgresql://'' @ connection_string))
      else if provider = ''mysql'' then
        (if startswith connection_string ''mysql://'' then Inr connection_string
         else Inr (''mysql+pymysql://'' @ connection_string))
      else if provider = ''mssql'' then
        (if startswith connection_string ''mssql://'' then Inr connection_string
         else Inr (''mssql+pyodbc://'' @ connection_string))
      else Inl (ValueError (''Unknown provider: '' @ provider)))"

definition engine_key :: "string \<Rightarrow> string \<Rightarrow> string" where
  "engine_key provider connection_string = provider @ '':'' @ connection_string"

definition get_engine ::
  "string \<Rightarrow> string \<Rightarrow> StorageService \<Rightarrow> (py_error + Engine) \<times> StorageService" where
  "get_engine provider connection_string svc =
     (let key = engine_key provider connection_string
      in case engines svc key of
           Some engine \<Rightarrow> (Inr engine, svc)
         | None \<Rightarrow>
             (case build_connection_url provider connection_string of
                Inl e \<Rightarrow> (Inl e, svc)
              | Inr url \<Rightarrow>
                  let engine = \<lparr>engine_url = url\<rparr>
                  in (Inr engine, svc\<lparr>engines := (engines svc)(key \<mapsto> engine)\<rparr>)))"

definition drop_engine :: "string \<Rightarrow> string \<Rightarrow> StorageService \<Rightarrow> StorageService" where
  "drop_engine provider connection_string svc =
     (let key = engine_key provider connection_string
      in case engines svc key of
           None \<Rightarrow> svc
         | Some engine \<Rightarrow>
             svc\<lparr>engines := (engines svc)(key := None), disposed := disposed svc @ [engine]\<rparr>)"

text \<open>\<^verbatim>\<open>test_connection\<close> without its latency: success flag and error message.\<close>

definition test_connection ::
  "string \<Rightarrow> string \<Rightarrow> db_result \<Rightarrow> StorageService \<Rightarrow> (bool \<times> string) \<times> StorageService" where
  "test_connection provider connection_string db svc =
     (case get_engine provider connection_string svc of
        (Inl e, svc1) \<Rightarrow> ((False, error_message e), drop_engine provider connection_string svc1)
      | (Inr engine, svc1) \<Rightarrow>
          (case db of
             DbOk \<Rightarrow> ((True, []), svc1)
           | DbRaises msg \<Rightarrow> ((False, msg), drop_engine provider connection_string svc1)))"

text \<open>
  \<^verbatim>\<open>insert_batch\<close>: success flag, number of rows inserted and error message. Its
  \<^verbatim>\<open>except\<close> branch logs and returns; the rows it stamps already carry
  \<^verbatim>\<open>timestamp_utc\<close> when they come from the worker loop.
\<close>

definition insert_batch ::
  "string \<Rightarrow> string \<Rightarrow> string \<Rightarrow> pydict list \<Rightarrow> db_result \<Rightarrow> StorageService
     \<Rightarrow> (bool \<times> int \<times> string) \<times> StorageService" where
  "insert_batch provider connection_string table_name rows db svc =
     (if rows = [] then ((True, 0, []), svc)
      else (case get_engine provider connection_string svc of
              (Inl e, svc1) \<Rightarrow> ((False, 0, error_message e), svc1)
            | (Inr engine, svc1) \<Rightarrow>
                (case db of
                   DbOk \<Rightarrow> ((True, int (length rows), []), svc1)
                 | DbRaises msg \<Rightarrow> ((False, 0, msg), svc1))))"

text \<open>
  The write callback that \<^verbatim>\<open>JobViewSet._create_write_callback\<close> (views/jobs.py) hands
  to the executor: it looks the table up, calls \<^verbatim>\<open>insert_batch\<close> and returns its
  success flag.
\<close>

record table_target =
  target_name :: string
  storage_target :: "(string \<times> string) option"

definition write_callback ::
  "(string \<rightharpoonup> table_target) \<Rightarrow> string \<Rightarrow> pydict list \<Rightarrow> db_result \<Rightarrow> StorageService
     \<Rightarrow> bool \<times> StorageService" where
  "write_callback tables table_id rows db svc =
     (case tables table_id of
        None \<Rightarrow> (False, svc)
      | Some table \<Rightarrow>
          (case storage_target table of
             None \<Rightarrow> (False, svc)
           | Some target \<Rightarrow>
               (case insert_batch (fst target) (snd target) (target_name table) rows db svc of
                  (result, svc') \<Rightarrow> (fst result, svc'))))"

text \<open>
  Concrete configurations used below: a \<^verbatim>\<open>change\<close> trigger on a string field with
  deadband 1, a threshold trigger with a cooldown of one second, and executor states
  of a running trigger job \<^verbatim>\<open>job-1\<close> with table \<^verbatim>\<open>t1\<close>.
\<close>

definition state_trigger :: trigger where
  "state_trigger =
     \<lparr>trig_field = ''state'', trig_operator = ''change'', trig_value = None,
      trig_deadband = 1, trig_cooldown_ms = 0\<rparr>"

definition idle_executor :: JobExecutor where
  "idle_executor =
     \<lparr>job_last_values = [''job-1'' \<mapsto> [''t1'' \<mapsto> [(''state'', VStr ''IDLE''), (''temp'', VFloat 10)]]],
      job_cooldowns = [''job-1'' \<mapsto> Map.empty]\<rparr>"

definition temp_trigger :: trigger where
  "temp_trigger =
     \<lparr>trig_field = ''temp'', trig_operator = ''>'', trig_value = Some 0,
      trig_deadband = 0, trig_cooldown_ms = 1000\<rparr>"

definition cooling_executor :: JobExecutor where
  "cooling_executor =
     \<lparr>job_last_values = [''job-1'' \<mapsto> Map.empty],
      job_cooldowns = [''job-1'' \<mapsto> [cooldown_key ''t1'' ''temp'' \<mapsto> 1000000]]\<rparr>"

text \<open>
  The worker's state when the stop event is seen after \<open>n\<close> passes, and the buffer of
  one table in a state.
\<close>

definition state_after ::
  "job_config \<Rightarrow> string \<Rightarrow> (nat \<Rightarrow> nat \<Rightarrow> table_event) \<Rightarrow> nat \<Rightarrow> JobExecutor \<Rightarrow> JobMetrics
     \<Rightarrow> loop_state" where
  "state_after cfg job env n self m = iterations cfg job env n (loop_start cfg job self m)"

definition buffer_of :: "loop_state \<Rightarrow> string \<Rightarrow> pydict list" where
  "buffer_of st table_id =
     (case map_of (batch_buffer st) table_id of None \<Rightarrow> [] | Some buf \<Rightarrow> buf)"

text \<open>
  The loop invariant of a single-table job with batch size \<open>N\<close>, for the rows appended
  so far: the buffer holds fewer than \<open>N\<close> rows, every write so far was for this table
  with \<open>N\<close> rows, and the rows written followed by the rows buffered are the rows
  appended, in order.
\<close>

definition batch_inv :: "string \<Rightarrow> nat \<Rightarrow> pydict list \<Rightarrow> loop_state \<Rightarrow> bool" where
  "batch_inv t N rows st \<longleftrightarrow>
     (\<exists>buf. batch_buffer st = [(t, buf)] \<and> length buf < N \<and>
            concat (map snd (write_calls st)) @ buf = rows) \<and>
     (\<forall>w \<in> set (write_calls st). fst w = t \<and> length (snd w) = N)"

text \<open>
  A continuous job on one table with batch size 2; every read returns a power value
  and every write succeeds. A storage service that has one pooled engine.
\<close>

definition sample_config :: job_config where
  "sample_config =
     \<lparr>job_type = ''continuous'', interval_ms = 1000, table_ids = [''t1''], triggers = [],
      batch_size = 2\<rparr>"

definition sample_event :: table_event where
  "sample_event =
     \<lparr>ev_read = ReadReturns (Some [(''power'', VFloat 230.5)]), ev_read_latency = 4,
      ev_read_at = 10, ev_eval_at = 11, ev_stamp_at = 12, ev_write = Inr True,
      ev_write_latency = 7, ev_write_at = 20, ev_error_at = 21\<rparr>"

definition sample_row :: pydict where
  "sample_row = [(''power'', VFloat 230.5), (''timestamp_utc'', VTime 12)]"

definition empty_executor :: JobExecutor where
  "empty_executor = \<lparr>job_last_values = Map.empty, job_cooldowns = Map.empty\<rparr>"

definition pooled_engine :: Engine where
  "pooled_engine = \<lparr>engine_url = ''postgresql://logger:pw@db:5432/plant''\<rparr>"

definition pooled_service :: StorageService where
  "pooled_service =
     \<lparr>engines = [engine_key ''postgres'' ''logger:pw@db:5432/plant'' \<mapsto> pooled_engine],
      disposed = []\<rparr>"




text \<open>A metrics value with a read window of 21 samples and a write window of 3.\<close>

definition sample_metrics :: JobMetrics where
  "sample_metrics =
     \<lparr>job_id = ''job-1'', reads = 21, read_errors = 0, writes = 3, write_errors = 0,
      rows_written = 3, triggers_evaluated = 0, triggers_fired = 0, triggers_suppressed = 0,
      read_latencies = [21, 3, 2, 1, 4, 5, 6, 7, 8, 9, 10, 11, 12, 13, 14, 15, 16, 17, 18, 19, 20.5],
      write_latencies = [1, 2.5, 4],
      started_at = Some 0, last_read_at = Some 21000000, last_write_at = Some 21000000,
      errors = []\<rparr>"

section \<open>Address parsing\<close>

text \<open>
  Claim C3. For every integer address \<open>a\<close>: an address in 0..9999 is a coil at offset
  \<open>a\<close>; 10001..19999 is a discrete input at \<open>a - 10001\<close>; 30001..39999 is an input
  register at \<open>a - 30001\<close>; 40001..49999 is a holding register at \<open>a - 40001\<close>; every
  other value (10000, 20000..30000, above 49999, negative) is a holding register at the
  raw address.
\<close>

theorem parse_address_convention:
  "(0 \<le> a \<and> a \<le> 9999 \<longrightarrow> parse_address a = (coil, a)) \<and>
   (10001 \<le> a \<and> a \<le> 19999 \<longrightarrow> parse_address a = (discrete, a - 10001)) \<and>
   (30001 \<le> a \<and> a \<le> 39999 \<longrightarrow> parse_address a = (input, a - 30001)) \<and>
   (40001 \<le> a \<and> a \<le> 49999 \<longrightarrow> parse_address a = (holding, a - 40001)) \<and>
   (\<not> (0 \<le> a \<and> a \<le> 9999) \<and> \<not> (10001 \<le> a \<and> a \<le> 19999) \<and>
    \<not> (30001 \<le> a \<and> a \<le> 39999) \<and> \<not> (40001 \<le> a \<and> a \<le> 49999)
      \<longrightarrow> parse_address a = (holding, a))"
  by (simp add: parse_address_def)

theorem parse_address_convention_witness:
  "parse_address 7 = (coil, 7) \<and> parse_address 10005 = (discrete, 4) \<and>
   parse_address 30001 = (input, 0) \<and> parse_address 49999 = (holding, 9998) \<and>
   parse_address 10000 = (holding, 10000) \<and> parse_address 25000 = (holding, 25000) \<and>
   parse_address 50000 = (holding, 50000) \<and> parse_address (- 3) = (holding, - 3)"
  using parse_address_convention [of 7] parse_address_convention [of 10005]
    parse_address_convention [of 30001] parse_address_convention [of 49999]
    parse_address_convention [of 10000] parse_address_convention [of 25000]
    parse_address_convention [of 50000] parse_address_convention [of "- 3"]
  by simp

section \<open>Float byte orders\<close>

lemma unat_high_byte: "unat (ucast (drop_bit 8 (r :: 16 word)) :: 8 word) = unat r div 256"
proof -
  have "unat r < 65536" using unsigned_less [of r, where ?'a = nat] by simp
  then have "unat r div 256 < 256" by simp
  then show ?thesis
    by (simp add: unsigned_ucast_eq drop_bit_eq_div unat_div take_bit_nat_eq_self)
qed

lemma unat_low_byte: "unat (ucast ((r :: 16 word) AND 0xFF) :: 8 word) = unat r mod 256"
proof -
  have "r AND 0xFF = take_bit 8 r"
    by (simp add: take_bit_eq_mask mask_eq_exp_minus_1)
  then show ?thesis
    by (simp add: unsigned_ucast_eq take_bit_eq_mod unat_mod)
qed

lemma unat_pack_be_H: "map unat (pack_be_H r) = [unat r div 256, unat r mod 256]"
  by (simp add: pack_be_H_def unat_high_byte unat_low_byte)

lemma unat_pack_le_H: "map unat (pack_le_H r) = [unat r mod 256, unat r div 256]"
  by (simp add: pack_le_H_def unat_high_byte unat_low_byte)

text \<open>
  Claim C4. For registers \<open>R1\<close>, \<open>R2\<close> (high byte \<open>R div 256\<close>, low byte \<open>R mod 256\<close>)
  the bytes handed to the big-endian decoder are: ABCD gives R1_hi R1_lo R2_hi R2_lo;
  DCBA gives R2_lo R2_hi R1_lo R1_hi; BADC gives R2_hi R2_lo R1_hi R1_lo; CDAB gives
  R1_lo R1_hi R2_lo R2_hi; any other byte order string is assembled as ABCD.
\<close>

theorem bytes_data_permutation:
  "map_sum id (map unat) (bytes_data (R1 # R2 # rest) ''ABCD'') =
     Inr [unat R1 div 256, unat R1 mod 256, unat R2 div 256, unat R2 mod 256] \<and>
   map_sum id (map unat) (bytes_data (R1 # R2 # rest) ''DCBA'') =
     Inr [unat R2 mod 256, unat R2 div 256, unat R1 mod 256, unat R1 div 256] \<and>
   map_sum id (map unat) (bytes_data (R1 # R2 # rest) ''BADC'') =
     Inr [unat R2 div 256, unat R2 mod 256, unat R1 div 256, unat R1 mod 256] \<and>
   map_sum id (map unat) (bytes_data (R1 # R2 # rest) ''CDAB'') =
     Inr [unat R1 mod 256, unat R1 div 256, unat R2 mod 256, unat R2 div 256] \<and>
   (bo \<notin> {''ABCD'', ''DCBA'', ''BADC'', ''CDAB''} \<longrightarrow>
      bytes_data (R1 # R2 # rest) bo = bytes_data (R1 # R2 # rest) ''ABCD'')"
  by (simp add: bytes_data_def unat_pack_be_H unat_pack_le_H)

theorem bytes_data_permutation_witness:
  "map_sum id (map unat) (bytes_data [0x1234, 0xABCD] ''ABCD'') = Inr [0x12, 0x34, 0xAB, 0xCD] \<and>
   map_sum id (map unat) (bytes_data [0x1234, 0xABCD] ''DCBA'') = Inr [0xCD, 0xAB, 0x34, 0x12] \<and>
   map_sum id (map unat) (bytes_data [0x1234, 0xABCD] ''BADC'') = Inr [0xAB, 0xCD, 0x12, 0x34] \<and>
   map_sum id (map unat) (bytes_data [0x1234, 0xABCD] ''CDAB'') = Inr [0x34, 0x12, 0xCD, 0xAB] \<and>
   bytes_data [0x1234, 0xABCD] ''abcd'' = bytes_data [0x1234, 0xABCD] ''ABCD''"
  using bytes_data_permutation [of "0x1234" "0xABCD" "[]" "''abcd''"]
  by simp

section \<open>Mapping health\<close>

lemma mapping_health_update:
  "mapping_health (update_mapping_health table) =
     (if set (schema_keys table) = {} then UNMAPPED
      else if set (schema_keys table) \<subseteq> set (mapping_field_keys table) then MAPPED
      else if set (mapping_field_keys table) \<noteq> {} then PARTIAL
      else UNMAPPED)"
  by (simp add: update_mapping_health_def Let_def)

lemma mapping_health_action_agrees:
  "mapping_health_action table =
     (mapping_health (update_mapping_health table), update_mapping_health table)"
  by (simp add: mapping_health_action_def update_mapping_health_def Let_def)

text \<open>
  Claim C7, as stated: the recomputed health is \<open>mapped\<close> iff the mapping keys are a
  superset of the schema keys. It fails for a schema without fields: every key set
  covers the empty set, and the source answers \<open>unmapped\<close> first.
\<close>

theorem mapping_health_empty_schema_counterexample:
  "\<not> (mapping_health (update_mapping_health
          \<lparr>schema_keys = [], mapping_field_keys = [''temp''], mapping_health = PARTIAL\<rparr>) = MAPPED
       \<longleftrightarrow> set ([] :: string list) \<subseteq> set [''temp''])"
  by (simp add: mapping_health_update)

text \<open>
  Claim C7, amended: after a mapping mutation the recomputed health is \<open>mapped\<close> iff
  the schema has at least one field and the mapping keys cover all schema keys;
  \<open>partial\<close> iff the schema has at least one field, there is at least one mapping and
  some schema key is not covered; \<open>unmapped\<close> iff the schema has no fields or there is
  no mapping.
\<close>

theorem mapping_health_recomputed:
  "(mapping_health (update_mapping_health table) = MAPPED \<longleftrightarrow>
      set (schema_keys table) \<noteq> {} \<and> set (schema_keys table) \<subseteq> set (mapping_field_keys table)) \<and>
   (mapping_health (update_mapping_health table) = PARTIAL \<longleftrightarrow>
      set (schema_keys table) \<noteq> {} \<and> set (mapping_field_keys table) \<noteq> {} \<and>
      \<not> set (schema_keys table) \<subseteq> set (mapping_field_keys table)) \<and>
   (mapping_health (update_mapping_health table) = UNMAPPED \<longleftrightarrow>
      set (schema_keys table) = {} \<or> set (mapping_field_keys table) = {})"
  by (auto simp: mapping_health_update)

theorem mapping_health_recomputed_witness:
  "mapping_health (update_mapping_health
     \<lparr>schema_keys = [''v'', ''i''], mapping_field_keys = [''i'', ''v'', ''x''], mapping_health = UNMAPPED\<rparr>) = MAPPED \<and>
   mapping_health (update_mapping_health
     \<lparr>schema_keys = [''v'', ''i''], mapping_field_keys = [''v''], mapping_health = UNMAPPED\<rparr>) = PARTIAL \<and>
   mapping_health (update_mapping_health
     \<lparr>schema_keys = [], mapping_field_keys = [''v''], mapping_health = MAPPED\<rparr>) = UNMAPPED"
  using mapping_health_recomputed [of "\<lparr>schema_keys = [''v'', ''i''], mapping_field_keys = [''i'', ''v'', ''x''], mapping_health = UNMAPPED\<rparr>"]
    mapping_health_recomputed [of "\<lparr>schema_keys = [''v'', ''i''], mapping_field_keys = [''v''], mapping_health = UNMAPPED\<rparr>"]
    mapping_health_recomputed [of "\<lparr>schema_keys = [], mapping_field_keys = [''v''], mapping_health = MAPPED\<rparr>"]
  by simp

section \<open>Latency summary\<close>

lemma p95_latency_small: "length lats \<le> 20 \<Longrightarrow> p95_latency lats = Inr None"
  by (simp add: p95_latency_def)

lemma p95_latency_large:
  assumes "length lats > 20"
  shows "p95_latency lats = Inr (Some (sort lats ! nat \<lfloor>0.95 * real (length lats)\<rfloor>))"
proof -
  let ?n = "length lats"
  have "0 < ?n" using assms by linarith
  then have "real ?n * 0.95 < real ?n" by simp
  then have upper: "\<lfloor>real ?n * 0.95\<rfloor> < int ?n" by linarith
  have pos: "0 \<le> real ?n * 0.95" by simp
  then have "0 \<le> \<lfloor>real ?n * 0.95\<rfloor>" by linarith
  with upper pos assms show ?thesis
    by (simp add: p95_latency_def py_getitem_def py_int_def Let_def mult.commute)
qed

lemma p95_latency_cases:
  "p95_latency lats =
     Inr (if length lats > 20 then Some (sort lats ! nat \<lfloor>0.95 * real (length lats)\<rfloor>) else None)"
  by (cases "length lats > 20") (simp_all add: p95_latency_large p95_latency_small)

lemma p95_index: "nat \<lfloor>0.95 * real n\<rfloor> = (95 * n) div 100"
proof -
  have "(0.95::real) * real n = real (95 * n) / real 100" by simp
  then have "\<lfloor>0.95 * real n\<rfloor> = \<lfloor>real (95 * n) / real 100\<rfloor>" by simp
  also have "\<dots> = int ((95 * n) div 100)" by (rule floor_divide_of_nat_eq)
  finally show ?thesis by simp
qed

text \<open>
  Claim C9. For a latency window of \<open>N\<close> samples the summary is produced (no index
  error), \<open>avg\<close> is the arithmetic mean of the window and null for an empty window, and
  \<open>p95\<close> is the element at index \<open>\<lfloor>0.95 * N\<rfloor>\<close> of the window sorted ascending when
  \<open>N > 20\<close> and null when \<open>N \<le> 20\<close>; the same for the read and the write window.
\<close>

theorem get_summary_latencies:
  "\<exists>s. get_summary m = Inr s \<and>
     avg_read_latency_ms s =
       (if read_latencies m = [] then None
        else Some (sum_list (read_latencies m) / real (length (read_latencies m)))) \<and>
     avg_write_latency_ms s =
       (if write_latencies m = [] then None
        else Some (sum_list (write_latencies m) / real (length (write_latencies m)))) \<and>
     p95_read_latency_ms s =
       (if length (read_latencies m) > 20
        then Some (sort (read_latencies m) ! nat \<lfloor>0.95 * real (length (read_latencies m))\<rfloor>)
        else None) \<and>
     p95_write_latency_ms s =
       (if length (write_latencies m) > 20
        then Some (sort (write_latencies m) ! nat \<lfloor>0.95 * real (length (write_latencies m))\<rfloor>)
        else None) \<and>
     (length (read_latencies m) > 20 \<longrightarrow>
        nat \<lfloor>0.95 * real (length (read_latencies m))\<rfloor> < length (read_latencies m)) \<and>
     (length (write_latencies m) > 20 \<longrightarrow>
        nat \<lfloor>0.95 * real (length (write_latencies m))\<rfloor> < length (write_latencies m))"
proof -
  have range: "nat \<lfloor>0.95 * real n\<rfloor> < n" if "20 < n" for n :: nat
    using that unfolding p95_index by simp
  show ?thesis
    using range [of "length (read_latencies m)"] range [of "length (write_latencies m)"]
    by (simp add: get_summary_def Let_def p95_latency_cases avg_latency_def
          del: of_nat_less_iff)
qed

theorem get_summary_latencies_witness:
  "\<exists>s. get_summary sample_metrics = Inr s \<and>
     avg_read_latency_ms s = Some (231.5 / 21) \<and>
     avg_write_latency_ms s = Some 2.5 \<and>
     p95_read_latency_ms s = Some 20.5 \<and>
     p95_write_latency_ms s = None"
proof -
  have srt: "sort (read_latencies sample_metrics) =
      [1, 2, 3, 4, 5, 6, 7, 8, 9, 10, 11, 12, 13, 14, 15, 16, 17, 18, 19, 20.5, 21]"
    by (simp add: sample_metrics_def)
  have len: "length (read_latencies sample_metrics) = 21" "length (write_latencies sample_metrics) = 3"
    by (simp_all add: sample_metrics_def)
  have idx: "nat \<lfloor>0.95 * real (21::nat)\<rfloor> = 19"
    unfolding p95_index by simp
  from get_summary_latencies [of sample_metrics]
  obtain s where s: "get_summary sample_metrics = Inr s"
    and a1: "avg_read_latency_ms s =
       (if read_latencies sample_metrics = [] then None
        else Some (sum_list (read_latencies sample_metrics) / real (length (read_latencies sample_metrics))))"
    and a2: "avg_write_latency_ms s =
       (if write_latencies sample_metrics = [] then None
        else Some (sum_list (write_latencies sample_metrics) / real (length (write_latencies sample_metrics))))"
    and p1: "p95_read_latency_ms s =
       (if length (read_latencies sample_metrics) > 20
        then Some (sort (read_latencies sample_metrics) ! nat \<lfloor>0.95 * real (length (read_latencies sample_metrics))\<rfloor>)
        else None)"
    and p2: "p95_write_latency_ms s =
       (if length (write_latencies sample_metrics) > 20
        then Some (sort (write_latencies sample_metrics) ! nat \<lfloor>0.95 * real (length (write_latencies sample_metrics))\<rfloor>)
        else None)"
    by blast
  have "avg_read_latency_ms s = Some (231.5 / 21)"
    unfolding a1 by (simp add: sample_metrics_def)
  moreover have "avg_write_latency_ms s = Some 2.5"
    unfolding a2 by (simp add: sample_metrics_def)
  moreover have "p95_read_latency_ms s = Some 20.5"
    unfolding p1 srt len idx by simp
  moreover have "p95_write_latency_ms s = None"
    unfolding p2 len by simp
  ultimately show ?thesis using s by blast
qed

section \<open>The change operator\<close>

lemma change_fired_no_old: "change_fired new_val VNone deadband = Inr False"
  by (simp add: change_fired_def)

lemma change_fired_numeric:
  "num_of new_val = Some n \<Longrightarrow> num_of old_val = Some ol \<Longrightarrow>
   change_fired new_val old_val deadband = Inr (\<bar>n - ol\<bar> > deadband)"
  by (cases new_val; cases old_val) (auto simp: change_fired_def py_abs_sub_def split: if_splits)

lemma change_fired_non_numeric:
  "num_of new_val = None \<Longrightarrow> old_val \<noteq> VNone \<Longrightarrow>
   change_fired new_val old_val deadband =
     Inr ((if py_eq new_val old_val then 0 else 1) > deadband)"
  by (auto simp: change_fired_def)

lemma change_fired_non_numeric_small_deadband:
  "num_of new_val = None \<Longrightarrow> old_val \<noteq> VNone \<Longrightarrow> 0 \<le> deadband \<Longrightarrow> deadband < 1 \<Longrightarrow>
   change_fired new_val old_val deadband = Inr (\<not> py_eq new_val old_val)"
  by (auto simp: change_fired_non_numeric)

text \<open>
  Claim C1 says that for a non-numeric value the \<^verbatim>\<open>change\<close> trigger fires iff
  \<open>new \<noteq> old\<close>, whatever the deadband. In the source the comparison result \<^verbatim>\<open>diff\<close> is
  a bool, a bool passes \<^verbatim>\<open>isinstance(diff, (int, float))\<close>, and the trigger fires iff
  \<^verbatim>\<open>diff > deadband\<close>. With the string going from \<^verbatim>\<open>IDLE\<close> to \<^verbatim>\<open>RUN\<close> the trigger
  fires under deadband 0 and does not fire under deadband 1, neither as a condition
  nor through \<^verbatim>\<open>_evaluate_triggers\<close>; under deadband -1 it fires on an unchanged
  string.
\<close>

theorem change_string_deadband:
  "change_fired (VStr ''RUN'') (VStr ''IDLE'') 0 = Inr True \<and>
   change_fired (VStr ''RUN'') (VStr ''IDLE'') 1 = Inr False \<and>
   change_fired (VStr ''RUN'') (VStr ''RUN'') (- 1) = Inr True \<and>
   fst (evaluate_triggers ''job-1'' ''t1'' [(''state'', VStr ''RUN'')] [state_trigger] 0
          idle_executor (fresh_metrics ''job-1'')) = Inr False"
  by (simp add: change_fired_def py_eq_def evaluate_triggers_def stored_last_values_def
      idle_executor_def state_trigger_def trigger_condition_def dict_get_def
      check_cooldown_def Let_def)

section \<open>Counting evaluated triggers\<close>

lemma elapsed_ms_less:
  "(total_seconds (now - last_fire) * 1000 < real_of_int c) = (now - last_fire < 1000 * c)"
proof -
  have "total_seconds (now - last_fire) * 1000 = real_of_int (now - last_fire) / 1000"
    by (simp add: total_seconds_def)
  also have "(\<dots> < real_of_int c) = (real_of_int (now - last_fire) < real_of_int (1000 * c))"
    by (simp add: field_simps)
  also have "\<dots> = (now - last_fire < 1000 * c)"
    by (rule of_int_less_iff)
  finally show ?thesis .
qed

text \<open>
  The three ways through the cooldown check: a fire inside the cooldown window is
  recorded twice (once as suppressed, once as not fired); a fire outside it stores the
  time; a condition that does not hold changes only the counter.
\<close>

lemma check_cooldown_cases:
  "check_cooldown t f c now fired0 (cds, m, anyf) =
     (if fired0 \<and> c > 0 \<and>
         (case cds (cooldown_key t f) of None \<Rightarrow> False
          | Some last_fire \<Rightarrow> now - last_fire < 1000 * c)
      then (cds, record_trigger False False (record_trigger True True m), anyf)
      else if fired0 then (cds(cooldown_key t f \<mapsto> now), record_trigger True False m, True)
      else (cds, record_trigger False False m, anyf))"
  by (auto simp: check_cooldown_def Let_def elapsed_ms_less split: option.splits)

lemma check_cooldown_evaluated:
  "triggers_evaluated (fst (snd (check_cooldown t f c now fired0 (cds, m, anyf)))) =
     triggers_evaluated m +
       (if fired0 \<and> c > 0 \<and>
           (case cds (cooldown_key t f) of None \<Rightarrow> False
            | Some last_fire \<Rightarrow> now - last_fire < 1000 * c)
        then 2 else 1)"
  by (simp add: check_cooldown_cases record_trigger_def Let_def)

text \<open>
  Claim C6 says that one evaluation adds exactly one to \<^verbatim>\<open>triggers_evaluated\<close> for
  each configured trigger whose field is present, also for a suppressed one. With one
  trigger on \<^verbatim>\<open>temp\<close> (cooldown 1000 ms) whose last fire was 200 ms ago, evaluating
  \<^verbatim>\<open>temp = 5\<close> against threshold 0 is suppressed and leaves
  \<^verbatim>\<open>triggers_evaluated = 2\<close>, \<^verbatim>\<open>triggers_fired = 1\<close>, \<^verbatim>\<open>triggers_suppressed = 1\<close> on fresh
  metrics.
\<close>

theorem suppressed_counted_twice:
  "(case evaluate_triggers ''job-1'' ''t1'' [(''temp'', VFloat 5)] [temp_trigger] 1200000
          cooling_executor (fresh_metrics ''job-1'') of
      (res, self', m') \<Rightarrow>
        (res, triggers_evaluated m', triggers_fired m', triggers_suppressed m'))
   = (Inr False, 2, 1, 1)"
  by (simp add: evaluate_triggers_def stored_last_values_def cooling_executor_def
      temp_trigger_def trigger_condition_def dict_get_def check_cooldown_def Let_def
      cmp_threshold_def total_seconds_def record_trigger_def fresh_metrics_def)

section \<open>Last values\<close>

lemma trigger_loop_no_old:
  assumes "\<forall>tr \<in> set trs. map_of last_values (trig_field tr) = None \<and>
             trig_operator tr \<in> {''change'', ''rising'', ''falling''}"
  shows "\<exists>m'. trigger_loop t vals last_values now trs (cds, m, anyf) = (None, cds, m', anyf)"
  using assms
proof (induction trs arbitrary: m)
  case Nil
  then show ?case by simp
next
  case (Cons tr trs)
  then have cond: "trigger_condition tr v (dict_get last_values (trig_field tr)) = Inr False" for v
    by (auto simp: trigger_condition_def dict_get_def change_fired_def Let_def split: option.splits)
  show ?case
  proof (cases "map_of vals (trig_field tr)")
    case None
    then show ?thesis using Cons by simp
  next
    case (Some v)
    have "check_cooldown t (trig_field tr) (trig_cooldown_ms tr) now False (cds, m, anyf)
            = (cds, record_trigger False False m, anyf)"
      by (simp add: check_cooldown_def)
    then show ?thesis using Some cond Cons by simp
  qed
qed

lemma evaluate_triggers_last_values:
  assumes "evaluate_triggers job t vals trs now self m = (Inr fired, self', m')"
  shows "job_last_values self' =
           (job_last_values self)(job \<mapsto>
              (case job_last_values self job of None \<Rightarrow> Map.empty | Some pt \<Rightarrow> pt)(t \<mapsto> vals))"
  using assms
  by (auto simp: evaluate_triggers_def Let_def split: prod.splits option.splits)

lemma evaluate_triggers_no_old:
  assumes "stored_last_values self job t = lv"
    and "map_of lv (trig_field tr) = None"
    and "trig_operator tr \<in> {''change'', ''rising'', ''falling''}"
  shows "fst (evaluate_triggers job t vals2 [tr] now2 self m2) = Inr False"
proof -
  have "\<forall>x \<in> set [tr]. map_of lv (trig_field x) = None \<and>
          trig_operator x \<in> {''change'', ''rising'', ''falling''}"
    using assms by simp
  from trigger_loop_no_old [OF this]
  obtain m' where "trigger_loop t vals2 lv now2 [tr]
      (case job_cooldowns self job of None \<Rightarrow> Map.empty | Some c \<Rightarrow> c, m2, False)
        = (None, case job_cooldowns self job of None \<Rightarrow> Map.empty | Some c \<Rightarrow> c, m', False)"
    by blast
  then show ?thesis
    using assms(1) by (simp add: evaluate_triggers_def Let_def)
qed

text \<open>
  An evaluation that raises leaves before the last values are stored: they stay as
  they were.
\<close>

lemma evaluate_triggers_raise_keeps_last_values:
  assumes "evaluate_triggers job t vals trs now self m = (Inl e, self', m')"
  shows "job_last_values self' = job_last_values self"
  using assms
  by (auto simp: evaluate_triggers_def Let_def split: prod.splits option.splits)

text \<open>
  Claim C10, as stated: after every trigger evaluation the stored last values of the
  pair are the values passed in. It fails for an evaluation that raises. The read
  callback stores \<^verbatim>\<open>None\<close> for a field whose read failed; with the trigger
  \<^verbatim>\<open>temp > 0\<close> the comparison of \<^verbatim>\<open>None\<close> with the threshold raises a TypeError, and
  the last values stored before (\<^verbatim>\<open>state = IDLE\<close>, \<^verbatim>\<open>temp = 10\<close>) are still stored.
\<close>

theorem last_values_kept_on_raise_counterexample:
  "fst (evaluate_triggers ''job-1'' ''t1'' [(''temp'', VNone)] [temp_trigger] 0
          idle_executor (fresh_metrics ''job-1''))
     = Inl (TypeError ''comparison not supported between instances'') \<and>
   stored_last_values
     (fst (snd (evaluate_triggers ''job-1'' ''t1'' [(''temp'', VNone)] [temp_trigger] 0
                  idle_executor (fresh_metrics ''job-1'')))) ''job-1'' ''t1''
     = [(''state'', VStr ''IDLE''), (''temp'', VFloat 10)] \<and>
   stored_last_values
     (fst (snd (evaluate_triggers ''job-1'' ''t1'' [(''temp'', VNone)] [temp_trigger] 0
                  idle_executor (fresh_metrics ''job-1'')))) ''job-1'' ''t1''
     \<noteq> [(''temp'', VNone)]"
  by (simp add: evaluate_triggers_def stored_last_values_def idle_executor_def
      temp_trigger_def trigger_condition_def cmp_threshold_def dict_get_def Let_def)

text \<open>
  Claim C10, amended. After every trigger evaluation for \<^verbatim>\<open>(job_id, table_id)\<close> that
  returns (does not raise), the stored last values of that pair are the values passed
  in (the other tables and jobs keep theirs): every field of the values reads as its
  new value, and for a field that is absent from the values, stored before or not, the
  next evaluation of a \<^verbatim>\<open>change\<close>, \<^verbatim>\<open>rising\<close> or \<^verbatim>\<open>falling\<close> trigger on it does not
  fire, exactly as in an executor that has never stored a value.
\<close>

theorem last_values_replaced:
  assumes "evaluate_triggers job t vals trs now self m = (Inr fired, self', m')"
  shows "job_last_values self' =
           (job_last_values self)(job \<mapsto>
              (case job_last_values self job of None \<Rightarrow> Map.empty | Some pt \<Rightarrow> pt)(t \<mapsto> vals)) \<and>
         stored_last_values self' job t = vals \<and>
         (\<forall>f tr vals2 now2 m2.
             map_of vals f = None \<and> trig_field tr = f \<and>
             trig_operator tr \<in> {''change'', ''rising'', ''falling''} \<longrightarrow>
             fst (evaluate_triggers job t vals2 [tr] now2 self' m2) = Inr False \<and>
             fst (evaluate_triggers job t vals2 [tr] now2 self' m2) =
               fst (evaluate_triggers job t vals2 [tr] now2
                      (self'\<lparr>job_last_values := Map.empty\<rparr>) m2))"
proof -
  have slv: "stored_last_values self' job t = vals"
    using evaluate_triggers_last_values [OF assms] by (simp add: stored_last_values_def)
  have never: "stored_last_values (self'\<lparr>job_last_values := Map.empty\<rparr>) job t = []"
    by (simp add: stored_last_values_def)
  have "fst (evaluate_triggers job t vals2 [tr] now2 self' m2) = Inr False \<and>
        fst (evaluate_triggers job t vals2 [tr] now2 self' m2) =
          fst (evaluate_triggers job t vals2 [tr] now2 (self'\<lparr>job_last_values := Map.empty\<rparr>) m2)"
    if "map_of vals f = None" "trig_field tr = f"
       "trig_operator tr \<in> {''change'', ''rising'', ''falling''}" for f tr vals2 now2 m2
    using evaluate_triggers_no_old [OF slv, of tr vals2 now2 m2]
      evaluate_triggers_no_old [OF never, of tr vals2 now2 m2] that
    by simp
  with slv evaluate_triggers_last_values [OF assms] show ?thesis by blast
qed

theorem last_values_replaced_witness:
  "stored_last_values
     (fst (snd (evaluate_triggers ''job-1'' ''t1'' [(''state'', VStr ''RUN'')] [state_trigger] 0
                  idle_executor (fresh_metrics ''job-1'')))) ''job-1'' ''t1''
     = [(''state'', VStr ''RUN'')] \<and>
   fst (evaluate_triggers ''job-1'' ''t1'' [(''temp'', VFloat 99)]
          [\<lparr>trig_field = ''temp'', trig_operator = ''change'', trig_value = None,
            trig_deadband = 0, trig_cooldown_ms = 0\<rparr>] 1000000
          (fst (snd (evaluate_triggers ''job-1'' ''t1'' [(''state'', VStr ''RUN'')] [state_trigger] 0
                  idle_executor (fresh_metrics ''job-1''))))
          (fresh_metrics ''job-1'')) = Inr False"
proof -
  obtain self' m' where ev:
    "evaluate_triggers ''job-1'' ''t1'' [(''state'', VStr ''RUN'')] [state_trigger] 0
       idle_executor (fresh_metrics ''job-1'') = (Inr False, self', m')"
    by (simp add: evaluate_triggers_def stored_last_values_def idle_executor_def
        state_trigger_def trigger_condition_def dict_get_def check_cooldown_def Let_def
        change_fired_def py_eq_def)
  have absent: "map_of [(''state'', VStr ''RUN'')] ''temp'' = None" by simp
  from last_values_replaced [OF ev] absent
  show ?thesis unfolding ev by simp
qed

section \<open>Batch buffer and flush\<close>

lemma loop_error_frame:
  "batch_buffer (loop_error msg ev st) = batch_buffer st"
  "write_calls (loop_error msg ev st) = write_calls st"
  by (simp_all add: loop_error_def)

text \<open>The read and the write decision touch neither the buffers nor the write callback.\<close>

lemma read_and_decide_frame:
  "batch_buffer (snd (read_and_decide cfg job t ev st)) = batch_buffer st \<and>
   write_calls (snd (read_and_decide cfg job t ev st)) = write_calls st"
  by (simp add: read_and_decide_def loop_error_frame Let_def
      split: read_result.splits option.splits prod.splits sum.splits)

lemma buffer_row_step:
  assumes inv: "batch_inv t N rows st" and N: "batch_size cfg = int N"
    and w: "ev_write ev = Inr ok"
  shows "batch_inv t N
           (rows @ (if sw then [dict_set vals ''timestamp_utc'' (VTime (ev_stamp_at ev))] else []))
           (buffer_row cfg t sw vals ev st)"
proof (cases sw)
  case False
  then show ?thesis using inv by (simp add: buffer_row_def)
next
  case True
  from inv obtain buf where buf: "batch_buffer st = [(t, buf)]" "length buf < N"
      "concat (map snd (write_calls st)) @ buf = rows"
    and ws: "\<forall>w \<in> set (write_calls st). fst w = t \<and> length (snd w) = N"
    unfolding batch_inv_def by blast
  show ?thesis
  proof (cases "Suc (length buf) = N")
    case full: True
    then show ?thesis using True buf ws N w
      by (auto simp: buffer_row_def batch_inv_def Let_def)
  next
    case False
    then have "Suc (length buf) < N" using buf(2) by simp
    then show ?thesis using True buf ws N w
      by (auto simp: buffer_row_def batch_inv_def Let_def)
  qed
qed

lemma table_pass_step:
  assumes inv: "batch_inv t N rows st" and N: "batch_size cfg = int N"
    and w: "ev_write ev = Inr ok"
  shows "batch_inv t N (rows @ enqueued_row cfg job t ev st) (table_pass cfg job t ev st)"
proof -
  obtain d st' where d: "read_and_decide cfg job t ev st = (d, st')"
    by (cases "read_and_decide cfg job t ev st")
  have fr: "batch_buffer st' = batch_buffer st" "write_calls st' = write_calls st"
    using read_and_decide_frame [of cfg job t ev st] d by simp_all
  then have inv': "batch_inv t N rows st'" using inv by (simp add: batch_inv_def)
  show ?thesis
  proof (cases d)
    case None
    then show ?thesis using d inv' by (simp add: table_pass_def enqueued_row_def)
  next
    case (Some p)
    obtain sw vals where p: "p = (sw, vals)" by (cases p)
    show ?thesis using buffer_row_step [OF inv' N w, of sw vals] d Some p
      by (simp add: table_pass_def enqueued_row_def)
  qed
qed

lemma buffer_row_effect:
  assumes inv: "batch_inv t N rows st" and N: "batch_size cfg = int N"
    and w: "ev_write ev = Inr ok"
  shows "write_calls (buffer_row cfg t True vals ev st) =
           write_calls st @
           (if Suc (length (buffer_of st t)) = N
            then [(t, buffer_of st t @ [dict_set vals ''timestamp_utc'' (VTime (ev_stamp_at ev))])]
            else []) \<and>
         buffer_of (buffer_row cfg t True vals ev st) t =
           (if Suc (length (buffer_of st t)) = N then []
            else buffer_of st t @ [dict_set vals ''timestamp_utc'' (VTime (ev_stamp_at ev))])"
proof -
  from inv obtain buf where buf: "batch_buffer st = [(t, buf)]" "length buf < N"
    unfolding batch_inv_def by blast
  then show ?thesis
    using N w by (auto simp: buffer_row_def buffer_of_def Let_def)
qed

lemma table_pass_effect:
  assumes inv: "batch_inv t N rows st" and N: "batch_size cfg = int N"
    and w: "ev_write ev = Inr ok"
  shows "write_calls (table_pass cfg job t ev st) =
           write_calls st @
           (if enqueued_row cfg job t ev st \<noteq> [] \<and> Suc (length (buffer_of st t)) = N
            then [(t, buffer_of st t @ enqueued_row cfg job t ev st)] else []) \<and>
         buffer_of (table_pass cfg job t ev st) t =
           (if enqueued_row cfg job t ev st \<noteq> [] \<and> Suc (length (buffer_of st t)) = N then []
            else buffer_of st t @ enqueued_row cfg job t ev st)"
proof -
  obtain d st' where d: "read_and_decide cfg job t ev st = (d, st')"
    by (cases "read_and_decide cfg job t ev st")
  have fr: "batch_buffer st' = batch_buffer st" "write_calls st' = write_calls st"
    using read_and_decide_frame [of cfg job t ev st] d by simp_all
  then have inv': "batch_inv t N rows st'" using inv by (simp add: batch_inv_def)
  have bo: "buffer_of st' t = buffer_of st t" using fr by (simp add: buffer_of_def)
  show ?thesis
  proof (cases d)
    case None
    then show ?thesis using d fr bo by (simp add: table_pass_def enqueued_row_def)
  next
    case (Some p)
    obtain sw vals where p: "p = (sw, vals)" by (cases p)
    show ?thesis
    proof (cases sw)
      case True
      then show ?thesis
        using buffer_row_effect [OF inv' N w, of vals] d Some p fr bo
        by (simp add: table_pass_def enqueued_row_def)
    next
      case False
      then show ?thesis using d Some p fr bo
        by (simp add: table_pass_def enqueued_row_def buffer_row_def)
    qed
  qed
qed

lemma state_after_Suc:
  "table_ids cfg = [t] \<Longrightarrow>
   state_after cfg job env (Suc n) self m =
     table_pass cfg job t (env n 0) (state_after cfg job env n self m)"
  by (simp add: state_after_def)

lemma batch_inv_run:
  assumes tids: "table_ids cfg = [t]" and N: "batch_size cfg = int N" and pos: "1 \<le> N"
    and w: "\<forall>i. \<exists>ok. ev_write (env i 0) = Inr ok"
  shows "batch_inv t N (enqueued cfg job t env n (loop_start cfg job self m))
           (state_after cfg job env n self m)"
proof (induction n)
  case 0
  show ?case using tids pos
    by (simp add: state_after_def loop_start_def batch_inv_def)
next
  case (Suc n)
  obtain ok where ok: "ev_write (env n 0) = Inr ok" using w by blast
  from table_pass_step [OF Suc N ok, of job]
  show ?case
    by (simp add: state_after_Suc [OF tids]) (simp add: state_after_def)
qed

lemma concat_uniform_length:
  "\<forall>w \<in> set ws. length (snd w) = N \<Longrightarrow> length (concat (map snd ws)) = N * length ws"
  by (induction ws) simp_all

lemma batch_inv_counts:
  assumes "batch_inv t N rows st"
  shows "length (write_calls st) = length rows div N \<and>
         length (buffer_of st t) = length rows mod N \<and>
         concat (map snd (write_calls st)) @ buffer_of st t = rows"
proof -
  from assms obtain buf where buf: "batch_buffer st = [(t, buf)]" "length buf < N"
      "concat (map snd (write_calls st)) @ buf = rows"
    and ws: "\<forall>w \<in> set (write_calls st). fst w = t \<and> length (snd w) = N"
    unfolding batch_inv_def by blast
  have bo: "buffer_of st t = buf" using buf(1) by (simp add: buffer_of_def)
  have "length rows = N * length (write_calls st) + length buf"
    using buf(3) concat_uniform_length [of "write_calls st" N] ws
    by (metis length_append)
  then show ?thesis
    using buf(2,3) bo by simp
qed

lemma flush_single:
  assumes "batch_inv t N rows st"
  shows "write_calls (flush_remaining st) =
           write_calls st @ (if buffer_of st t = [] then [] else [(t, buffer_of st t)])"
  using assms by (auto simp: batch_inv_def flush_remaining_def buffer_of_def)

text \<open>
  Claim C2. A job on a single table \<open>t\<close> with \<^verbatim>\<open>batch_size = N \<ge> 1\<close> whose write
  callback returns, stopped after any number \<open>n\<close> of passes; \<open>rows\<close> are the rows
  appended (the reads with \<^verbatim>\<open>should_write\<close> true), \<open>buf\<close> is the buffer at the stop.
  The rows written followed by the rows buffered are the rows appended, in order;
  every write carries exactly \<open>N\<close> rows of \<open>t\<close>; there are \<open>length rows div N\<close> writes,
  so exactly \<open>k\<close> after \<open>k * N\<close> rows, and \<open>length rows mod N\<close> rows are buffered. A pass
  issues a write exactly when it appends a row that makes the buffer reach \<open>N\<close>, the
  write carries the buffer and the buffer is empty afterwards; any other pass issues
  none. The stop issues exactly one more write, of the buffered rows, when the buffer
  is not empty and none when it is empty.
\<close>

theorem batch_flush:
  assumes "table_ids cfg = [t]" and "batch_size cfg = int N" and "1 \<le> N"
    and "\<forall>i. \<exists>ok. ev_write (env i 0) = Inr ok"
  shows "(let st = state_after cfg job env n self m;
              rows = enqueued cfg job t env n (loop_start cfg job self m);
              buf = buffer_of st t;
              new = enqueued_row cfg job t (env n 0) st
          in concat (map snd (write_calls st)) @ buf = rows \<and>
             (\<forall>w \<in> set (write_calls st). fst w = t \<and> length (snd w) = N) \<and>
             length (write_calls st) = length rows div N \<and>
             (\<forall>k. length rows = k * N \<longrightarrow> length (write_calls st) = k) \<and>
             length buf = length rows mod N \<and>
             write_calls (state_after cfg job env (Suc n) self m) =
               write_calls st @
               (if new \<noteq> [] \<and> Suc (length buf) = N then [(t, buf @ new)] else []) \<and>
             buffer_of (state_after cfg job env (Suc n) self m) t =
               (if new \<noteq> [] \<and> Suc (length buf) = N then [] else buf @ new) \<and>
             write_calls (run_job_loop cfg job env n self m) =
               write_calls st @ (if buf = [] then [] else [(t, buf)]))"
proof -
  let ?st = "state_after cfg job env n self m"
  let ?rows = "enqueued cfg job t env n (loop_start cfg job self m)"
  have inv: "batch_inv t N ?rows ?st"
    using assms batch_inv_run [of cfg t N env job n self m] by blast
  obtain ok where ok: "ev_write (env n 0) = Inr ok" using assms(4) by blast
  have counts: "length (write_calls ?st) = length ?rows div N"
    "length (buffer_of ?st t) = length ?rows mod N"
    "concat (map snd (write_calls ?st)) @ buffer_of ?st t = ?rows"
    using batch_inv_counts [OF inv] by simp_all
  have sizes: "\<forall>w \<in> set (write_calls ?st). fst w = t \<and> length (snd w) = N"
    using inv unfolding batch_inv_def by blast
  have multiples: "\<forall>k. length ?rows = k * N \<longrightarrow> length (write_calls ?st) = k"
    using counts(1) assms(3) by simp
  have step: "write_calls (state_after cfg job env (Suc n) self m) =
      write_calls ?st @
      (if enqueued_row cfg job t (env n 0) ?st \<noteq> [] \<and> Suc (length (buffer_of ?st t)) = N
       then [(t, buffer_of ?st t @ enqueued_row cfg job t (env n 0) ?st)] else [])"
    "buffer_of (state_after cfg job env (Suc n) self m) t =
      (if enqueued_row cfg job t (env n 0) ?st \<noteq> [] \<and> Suc (length (buffer_of ?st t)) = N
       then [] else buffer_of ?st t @ enqueued_row cfg job t (env n 0) ?st)"
    using table_pass_effect [OF inv assms(2) ok, of job]
    by (simp_all add: state_after_Suc [OF assms(1)])
  have stop: "write_calls (run_job_loop cfg job env n self m) =
      write_calls ?st @ (if buffer_of ?st t = [] then [] else [(t, buffer_of ?st t)])"
    using flush_single [OF inv] by (simp add: run_job_loop_def state_after_def)
  show ?thesis
    unfolding Let_def using counts sizes multiples step stop by blast
qed

lemma sample_enqueued_row:
  "enqueued_row sample_config job ''t1'' sample_event st = [sample_row]"
  by (simp add: enqueued_row_def read_and_decide_def sample_config_def sample_event_def
      sample_row_def dict_set_def Let_def)

theorem batch_flush_witness:
  "length (write_calls (state_after sample_config ''job-1'' (\<lambda>i k. sample_event) 3
             empty_executor (fresh_metrics ''job-1''))) = 1 \<and>
   length (buffer_of (state_after sample_config ''job-1'' (\<lambda>i k. sample_event) 3
             empty_executor (fresh_metrics ''job-1'')) ''t1'') = 1 \<and>
   write_calls (run_job_loop sample_config ''job-1'' (\<lambda>i k. sample_event) 3
             empty_executor (fresh_metrics ''job-1'')) =
     write_calls (state_after sample_config ''job-1'' (\<lambda>i k. sample_event) 3
             empty_executor (fresh_metrics ''job-1'')) @
     [(''t1'', buffer_of (state_after sample_config ''job-1'' (\<lambda>i k. sample_event) 3
             empty_executor (fresh_metrics ''job-1'')) ''t1'')]"
proof -
  have tids: "table_ids sample_config = [''t1'']"
    and N: "batch_size sample_config = int 2" and pos: "(1::nat) \<le> 2"
    by (simp_all add: sample_config_def)
  have w: "\<forall>i. \<exists>ok. ev_write ((\<lambda>i k. sample_event) i (0::nat)) = Inr ok"
    by (auto simp: sample_event_def)
  have rows: "length (enqueued sample_config ''job-1'' ''t1'' (\<lambda>i k. sample_event) 3
                (loop_start sample_config ''job-1'' empty_executor (fresh_metrics ''job-1''))) = 3"
    by (simp add: numeral_3_eq_3 sample_enqueued_row)
  from batch_flush [OF tids N pos w, of "''job-1''" 3 empty_executor "fresh_metrics ''job-1''"]
  show ?thesis
    unfolding Let_def rows by auto
qed

section \<open>Failed batch inserts\<close>

text \<open>
  What a failed insert does in the worker loop: the callback returns \<^verbatim>\<open>False\<close>, the
  write counts as a write error, the rows are not added to \<^verbatim>\<open>rows_written\<close>, and the
  buffer is rebound to an empty list, so the rows are not offered again.
\<close>

lemma write_callback_failure:
  assumes "tables table_id = Some table" and "storage_target table = Some target"
    and "rows \<noteq> []"
  shows "fst (write_callback tables table_id rows (DbRaises msg) svc) = False"
  using assms
  by (simp add: write_callback_def insert_batch_def split: prod.splits sum.splits)

lemma failed_write_in_loop:
  assumes "map_of (batch_buffer st) t = Some buf"
    and "batch_size cfg \<le> int (Suc (length buf))"
    and "ev_write ev = Inr False"
  shows "write_errors (metrics (buffer_row cfg t True vals ev st)) = write_errors (metrics st) + 1 \<and>
         writes (metrics (buffer_row cfg t True vals ev st)) = writes (metrics st) + 1 \<and>
         rows_written (metrics (buffer_row cfg t True vals ev st)) = rows_written (metrics st) \<and>
         buffer_of (buffer_row cfg t True vals ev st) t = []"
  using assms
  by (simp add: buffer_row_def buffer_of_def record_write_def Let_def update_conv')

text \<open>\<^verbatim>\<open>insert_batch\<close> never takes an engine out of the pool and never disposes one.\<close>

lemma insert_batch_keeps_engine:
  assumes "engines svc (engine_key provider connection_string) = Some engine"
  shows "snd (insert_batch provider connection_string table_name rows db svc) = svc"
  using assms
  by (simp add: insert_batch_def get_engine_def Let_def split: db_result.splits)

lemma insert_batch_never_disposes:
  "disposed (snd (insert_batch provider connection_string table_name rows db svc)) = disposed svc"
  by (simp add: insert_batch_def get_engine_def Let_def
      split: db_result.splits option.splits sum.splits)

text \<open>
  Claim C8 says that a failed batched insert disposes the engine pool entry of its
  \<^verbatim>\<open>(provider, connection_string)\<close> and removes it from the pool. With one pooled
  Postgres engine and an insert of one row that the database rejects,
  \<^verbatim>\<open>insert_batch\<close> returns \<^verbatim>\<open>(False, 0, message)\<close> and leaves the service as it was:
  the engine is still pooled and nothing was disposed. \<^verbatim>\<open>test_connection\<close>, on the
  same failure, takes the engine out of the pool and disposes it.
\<close>

theorem failed_insert_keeps_engine:
  "insert_batch ''postgres'' ''logger:pw@db:5432/plant'' ''lt_panel'' [sample_row]
     (DbRaises ''connection reset'') pooled_service
     = ((False, 0, ''connection reset''), pooled_service) \<and>
   engines pooled_service (engine_key ''postgres'' ''logger:pw@db:5432/plant'') = Some pooled_engine \<and>
   disposed pooled_service = [] \<and>
   fst (test_connection ''postgres'' ''logger:pw@db:5432/plant''
          (DbRaises ''connection reset'') pooled_service) = (False, ''connection reset'') \<and>
   engines (snd (test_connection ''postgres'' ''logger:pw@db:5432/plant''
          (DbRaises ''connection reset'') pooled_service))
     (engine_key ''postgres'' ''logger:pw@db:5432/plant'') = None \<and>
   disposed (snd (test_connection ''postgres'' ''logger:pw@db:5432/plant''
          (DbRaises ''connection reset'') pooled_service)) = [pooled_engine]"
  by (simp add: insert_batch_def test_connection_def get_engine_def drop_engine_def
      pooled_service_def Let_def)

section \<open>Cooldown\<close>





















end
